theory Spec2Isabelle
  imports Complex_Main
begin

section \<open>The thumbstick controller (src/app/thumbstick-controller.js)\<close>

text \<open>
  JavaScript numbers are modelled as exact numbers: fractions (deadzone, threshold, axis
  readings, the poll interval) as \<open>real\<close>, channel and pin identifiers and millisecond
  timestamps as \<open>int\<close>. NaN and the infinities are outside the model. Calls of
  \<open>console.log\<close> are left out: no other code observes them.
\<close>

subsection \<open>Data\<close>

text \<open>The strings \<open>'up'\<close>, \<open>'down'\<close>, \<open>'left'\<close>, \<open>'right'\<close>; \<open>null\<close> is \<open>None\<close>.\<close>

datatype direction = Up | Down | Left | Right

datatype zoom_direction = ZoomIn | ZoomOut

text \<open>The five events of the emitter with their payloads.\<close>

datatype event =
    LeftClick bool
  | RightClick
  | Zoom zoom_direction
  | Pan direction
  | Navigate direction

text \<open>
  The argument of the constructor. A property is a number or absent (\<open>undefined\<close>,
  \<open>None\<close>).
\<close>

record ctor_options =
  opt_leftXChannel :: "int option"
  opt_leftYChannel :: "int option"
  opt_rightXChannel :: "int option"
  opt_rightYChannel :: "int option"
  opt_leftButtonPin :: "int option"
  opt_rightButtonPin :: "int option"
  opt_deadzone :: "real option"
  opt_pollInterval :: "real option"
  opt_threshold :: "real option"

text \<open>\<open>this.options\<close>.\<close>

record config =
  leftXChannel :: int
  leftYChannel :: int
  rightXChannel :: int
  rightYChannel :: int
  leftButtonPin :: int
  rightButtonPin :: int
  deadzone :: real
  pollInterval :: real
  threshold :: real

text \<open>An opened ADC channel object (always truthy), named by its channel number.\<close>

datatype adc_channel = AdcChannel int

text \<open>\<open>this.channels\<close>: \<open>undefined\<close> until \<open>init\<close> has opened the four channels.\<close>

record channel_set =
  leftX :: adc_channel
  leftY :: adc_channel
  rightX :: adc_channel
  rightY :: adc_channel

text \<open>
  The controller object. \<open>this.state\<close> is flattened: \<open>left_x\<close> is
  \<open>state.left.x\<close>, \<open>lastDirection_left\<close> is \<open>state.lastDirection.left\<close>.
  \<open>pollTimer\<close> holds the handle of the last timer set, a number here.
\<close>

record controller =
  options :: config
  channels :: "channel_set option"
  pollTimer :: "nat option"
  isRunning :: bool
  left_x :: real
  left_y :: real
  left_button :: bool
  left_zoomMode :: bool
  right_x :: real
  right_y :: real
  right_button :: bool
  lastDirection_left :: "direction option"
  lastDirection_right :: "direction option"
  lastLeftClick :: int
  lastRightClick :: int
  clickDebounce :: int

subsection \<open>The constructor\<close>

text \<open>
  \<open>v || d\<close> for a number or \<open>undefined\<close>: \<open>undefined\<close> and \<open>0\<close> are falsy and
  give \<open>d\<close>.
\<close>

definition or_default :: "'a::zero option \<Rightarrow> 'a \<Rightarrow> 'a" where
  "or_default v d = (case v of None \<Rightarrow> d | Some n \<Rightarrow> if n = 0 then d else n)"

definition constructor :: "ctor_options \<Rightarrow> controller" where
  "constructor opts =
     \<lparr> options =
         \<lparr> leftXChannel = or_default (opt_leftXChannel opts) 0,
           leftYChannel = or_default (opt_leftYChannel opts) 1,
           rightXChannel = or_default (opt_rightXChannel opts) 2,
           rightYChannel = or_default (opt_rightYChannel opts) 3,
           leftButtonPin = or_default (opt_leftButtonPin opts) 17,
           rightButtonPin = or_default (opt_rightButtonPin opts) 27,
           deadzone = or_default (opt_deadzone opts) 0.15,
           pollInterval = or_default (opt_pollInterval opts) 50,
           threshold = or_default (opt_threshold opts) 0.3 \<rparr>,
       channels = None,
       pollTimer = None,
       isRunning = False,
       left_x = 0, left_y = 0, left_button = False, left_zoomMode = False,
       right_x = 0, right_y = 0, right_button = False,
       lastDirection_left = None, lastDirection_right = None,
       lastLeftClick = 0,
       lastRightClick = 0,
       clickDebounce = 200 \<rparr>"

text \<open>The empty options object \<open>{}\<close>, the constructor's default argument.\<close>

definition no_options :: ctor_options where
  "no_options =
     \<lparr> opt_leftXChannel = None, opt_leftYChannel = None, opt_rightXChannel = None,
       opt_rightYChannel = None, opt_leftButtonPin = None, opt_rightButtonPin = None,
       opt_deadzone = None, opt_pollInterval = None, opt_threshold = None \<rparr>"

subsection \<open>Button handlers\<close>

text \<open>
  The second argument is the value \<open>Date.now()\<close> returns in the call. The result is the
  controller after the call and the events emitted, in order.
\<close>

definition handleLeftButton :: "controller \<Rightarrow> bool \<Rightarrow> int \<Rightarrow> controller \<times> event list" where
  "handleLeftButton c pressed now =
     (let (c1, evs) =
        (if pressed \<and> now - lastLeftClick c > clickDebounce c
         then (c\<lparr> lastLeftClick := now, left_zoomMode := \<not> left_zoomMode c \<rparr>,
               [LeftClick (\<not> left_zoomMode c)])
         else (c, []))
      in (c1\<lparr> left_button := pressed \<rparr>, evs))"

definition handleRightButton :: "controller \<Rightarrow> bool \<Rightarrow> int \<Rightarrow> controller \<times> event list" where
  "handleRightButton c pressed now =
     (let (c1, evs) =
        (if pressed \<and> now - lastRightClick c > clickDebounce c
         then (c\<lparr> lastRightClick := now \<rparr>, [RightClick])
         else (c, []))
      in (c1\<lparr> right_button := pressed \<rparr>, evs))"

subsection \<open>Reading, deadzone and direction\<close>

text \<open>What the driver's \<open>channel.read\<close> calls back with: an error or a reading.\<close>

datatype adc_read = ReadError | Reading real

text \<open>How a promise settles.\<close>

datatype 'a settled = Resolved 'a | Rejected

definition readChannel :: "adc_channel option \<Rightarrow> adc_read \<Rightarrow> real settled" where
  "readChannel channel hw =
     (case channel of
        None \<Rightarrow> Resolved 0.5
      | Some ch \<Rightarrow> (case hw of ReadError \<Rightarrow> Rejected | Reading v \<Rightarrow> Resolved v))"

text \<open>
  With a deadzone of exactly 1 and a reading at which \<open>|centered| \<ge> 1\<close> JavaScript
  divides by zero and continues with NaN or an infinity, which the model does not have;
  for every other deadzone the division is the one of the reals.
\<close>

definition applyDeadzone :: "controller \<Rightarrow> real \<Rightarrow> real" where
  "applyDeadzone c v =
     (let centered = (v - 0.5) * 2 in
      if \<bar>centered\<bar> < deadzone (options c) then 0
      else
        (let sign = (if centered > 0 then 1 else - 1);
             scaled = (\<bar>centered\<bar> - deadzone (options c)) / (1 - deadzone (options c))
         in sign * scaled))"

definition getDirection :: "controller \<Rightarrow> real \<Rightarrow> real \<Rightarrow> direction option" where
  "getDirection c x y =
     (let t = threshold (options c) in
      if \<bar>x\<bar> < t \<and> \<bar>y\<bar> < t then None
      else if \<bar>x\<bar> > \<bar>y\<bar> then (if x > 0 then Some Right else Some Left)
      else (if y > 0 then Some Down else Some Up))"

subsection \<open>Initialisation\<close>

text \<open>
  How \<open>init\<close> ends: a \<open>require\<close> throws before any channel is opened, the
  \<open>Gpio\<close> constructor throws after the four channels were opened, or nothing throws.
  \<open>mcpSpiAdc.open\<close> reports its errors to a callback and returns the channel object.
\<close>

datatype init_outcome = RequireThrows | GpioThrows | InitOk

definition open_channels :: "controller \<Rightarrow> channel_set" where
  "open_channels c =
     \<lparr> leftX = AdcChannel (leftXChannel (options c)),
       leftY = AdcChannel (leftYChannel (options c)),
       rightX = AdcChannel (rightXChannel (options c)),
       rightY = AdcChannel (rightYChannel (options c)) \<rparr>"

definition init :: "controller \<Rightarrow> init_outcome \<Rightarrow> controller \<times> bool" where
  "init c outcome =
     (case outcome of
        RequireThrows \<Rightarrow> (c, False)
      | GpioThrows \<Rightarrow> (c\<lparr> channels := Some (open_channels c) \<rparr>, False)
      | InitOk \<Rightarrow> (c\<lparr> channels := Some (open_channels c) \<rparr>, True))"

subsection \<open>One poll tick\<close>

text \<open>What the four reads of one tick call back with (unused for a channel that is absent).\<close>

record hw_reads =
  hw_leftX :: adc_read
  hw_leftY :: adc_read
  hw_rightX :: adc_read
  hw_rightY :: adc_read

text \<open>
  \<open>Promise.all\<close> over the four \<open>readChannel\<close> calls; \<open>this.channels?.leftX\<close> is
  \<open>undefined\<close> when \<open>this.channels\<close> is.
\<close>

definition read_all :: "controller \<Rightarrow> hw_reads \<Rightarrow> (real \<times> real \<times> real \<times> real) settled" where
  "read_all c hw =
     (case readChannel (map_option leftX (channels c)) (hw_leftX hw) of
        Rejected \<Rightarrow> Rejected
      | Resolved lxRaw \<Rightarrow>
     (case readChannel (map_option leftY (channels c)) (hw_leftY hw) of
        Rejected \<Rightarrow> Rejected
      | Resolved lyRaw \<Rightarrow>
     (case readChannel (map_option rightX (channels c)) (hw_rightX hw) of
        Rejected \<Rightarrow> Rejected
      | Resolved rxRaw \<Rightarrow>
     (case readChannel (map_option rightY (channels c)) (hw_rightY hw) of
        Rejected \<Rightarrow> Rejected
      | Resolved ryRaw \<Rightarrow> Resolved (lxRaw, lyRaw, rxRaw, ryRaw)))))"

text \<open>The block "Detect direction changes for left stick" of \<open>poll\<close>.\<close>

definition left_stick :: "controller \<Rightarrow> direction option \<Rightarrow> controller \<times> event list" where
  "left_stick c leftDir =
     (if leftDir \<noteq> lastDirection_left c
      then (c\<lparr> lastDirection_left := leftDir \<rparr>,
            (case leftDir of
               None \<Rightarrow> []
             | Some d \<Rightarrow>
                 if left_zoomMode c
                 then (if d = Up then [Zoom ZoomIn]
                       else if d = Down then [Zoom ZoomOut]
                       else [])
                 else [Pan d]))
      else (c, []))"

text \<open>The block "Detect direction changes for right stick (navigation)" of \<open>poll\<close>.\<close>

definition right_stick :: "controller \<Rightarrow> direction option \<Rightarrow> controller \<times> event list" where
  "right_stick c rightDir =
     (if rightDir \<noteq> lastDirection_right c
      then (c\<lparr> lastDirection_right := rightDir \<rparr>,
            (case rightDir of None \<Rightarrow> [] | Some d \<Rightarrow> [Navigate d]))
      else (c, []))"

text \<open>
  The \<open>try\<close> block of \<open>poll\<close> from the point where the reads have settled, with its
  \<open>catch\<close>: a rejected read leaves the controller as it is and emits nothing.
\<close>

definition poll_try :: "controller \<Rightarrow> hw_reads \<Rightarrow> controller \<times> event list" where
  "poll_try c hw =
     (case read_all c hw of
        Rejected \<Rightarrow> (c, [])
      | Resolved (lxRaw, lyRaw, rxRaw, ryRaw) \<Rightarrow>
          (let lx = applyDeadzone c lxRaw;
               ly = applyDeadzone c lyRaw;
               rx = applyDeadzone c rxRaw;
               ry = applyDeadzone c ryRaw;
               c1 = c\<lparr> left_x := lx, left_y := ly, right_x := rx, right_y := ry \<rparr>;
               (c2, evL) = left_stick c1 (getDirection c1 lx ly);
               (c3, evR) = right_stick c2 (getDirection c2 rx ry)
           in (c3, evL @ evR)))"

text \<open>Consecutive ticks with nothing between them, and all the events they emit.\<close>

fun ticks :: "controller \<Rightarrow> hw_reads list \<Rightarrow> controller \<times> event list" where
  "ticks c [] = (c, [])"
| "ticks c (hw # hws) =
     (let (c1, evs) = poll_try c hw; (c2, evs') = ticks c1 hws in (c2, evs @ evs'))"

subsection \<open>The event loop around the controller\<close>

text \<open>
  \<open>poll\<close> is an \<open>async\<close> function: a call runs up to its \<open>await\<close> and is suspended
  there; when the reads have settled the rest runs and sets a timer whose firing calls
  \<open>poll\<close> again. The runtime holds the controller, the number of suspended calls of
  \<open>poll\<close>, the handles of the pending timers, the next fresh handle and every event
  emitted so far.
\<close>

record runtime =
  ctl :: controller
  awaiting :: nat
  timers :: "nat list"
  next_handle :: nat
  emitted :: "event list"

definition boot :: "controller \<Rightarrow> runtime" where
  "boot c = \<lparr> ctl = c, awaiting = 0, timers = [], next_handle = 0, emitted = [] \<rparr>"

text \<open>A call of \<open>poll\<close>, up to the \<open>await\<close>.\<close>

definition poll_call :: "runtime \<Rightarrow> runtime" where
  "poll_call r = (if \<not> isRunning (ctl r) then r else r\<lparr> awaiting := awaiting r + 1 \<rparr>)"

text \<open>The rest of a suspended \<open>poll\<close>: the \<open>try\<close> block, then \<open>setTimeout\<close>.\<close>

definition poll_resume :: "runtime \<Rightarrow> hw_reads \<Rightarrow> runtime" where
  "poll_resume r hw =
     (let (c, evs) = poll_try (ctl r) hw; h = next_handle r
      in r\<lparr> ctl := c\<lparr> pollTimer := Some h \<rparr>,
             awaiting := awaiting r - 1,
             timers := timers r @ [h],
             next_handle := h + 1,
             emitted := emitted r @ evs \<rparr>)"

definition start :: "runtime \<Rightarrow> runtime" where
  "start r =
     (if isRunning (ctl r) then r
      else poll_call (r\<lparr> ctl := (ctl r)\<lparr> isRunning := True \<rparr> \<rparr>))"

definition stop :: "runtime \<Rightarrow> runtime" where
  "stop r =
     (let c = (ctl r)\<lparr> isRunning := False \<rparr> in
      case pollTimer c of
        None \<Rightarrow> r\<lparr> ctl := c \<rparr>
      | Some h \<Rightarrow> r\<lparr> ctl := c\<lparr> pollTimer := None \<rparr>, timers := removeAll h (timers r) \<rparr>)"

text \<open>
  What can happen next: a call of \<open>start\<close> or \<open>stop\<close>, the reads of a suspended
  \<open>poll\<close> settling, a pending timer firing, a button watcher called with
  \<open>pressed\<close> and the time. Something that cannot happen (no suspended \<open>poll\<close>, no
  such timer) leaves the runtime as it is.
\<close>

datatype action =
    CallStart
  | CallStop
  | ReadsSettle hw_reads
  | TimerFires nat
  | LeftButton bool int
  | RightButton bool int

fun step :: "runtime \<Rightarrow> action \<Rightarrow> runtime" where
  "step r CallStart = start r"
| "step r CallStop = stop r"
| "step r (ReadsSettle hw) = (if awaiting r = 0 then r else poll_resume r hw)"
| "step r (TimerFires h) =
     (if h \<in> set (timers r) then poll_call (r\<lparr> timers := removeAll h (timers r) \<rparr>) else r)"
| "step r (LeftButton pressed now) =
     (let (c, evs) = handleLeftButton (ctl r) pressed now
      in r\<lparr> ctl := c, emitted := emitted r @ evs \<rparr>)"
| "step r (RightButton pressed now) =
     (let (c, evs) = handleRightButton (ctl r) pressed now
      in r\<lparr> ctl := c, emitted := emitted r @ evs \<rparr>)"

definition run :: "runtime \<Rightarrow> action list \<Rightarrow> runtime" where
  "run r acts = foldl step r acts"

text \<open>The events of the sticks, as opposed to the clicks of the buttons.\<close>

fun stick_event :: "event \<Rightarrow> bool" where
  "stick_event (Zoom _) = True"
| "stick_event (Pan _) = True"
| "stick_event (Navigate _) = True"
| "stick_event _ = False"

fun left_stick_event :: "event \<Rightarrow> bool" where
  "left_stick_event (Zoom _) = True"
| "left_stick_event (Pan _) = True"
| "left_stick_event _ = False"

fun right_stick_event :: "event \<Rightarrow> bool" where
  "right_stick_event (Navigate _) = True"
| "right_stick_event _ = False"

section \<open>The broadcast to the WebSocket clients (the server script)\<close>

text \<open>
  \<open>wsClients\<close> is a \<open>Set\<close> of sockets, iterated in insertion order: a list. A socket has
  an identity and a \<open>readyState\<close> (1 is OPEN). Whether \<open>client.send\<close> throws is the
  socket's business, a parameter here; so is \<open>JSON.stringify\<close>. The function returns the
  registry after the call and what it did, in order.
\<close>

record ws_client =
  client_id :: nat
  readyState :: nat

datatype 'm effect =
    Serialize 'm
  | Sent ws_client string
  | SendThrew ws_client string

fun forEach_send :: "(ws_client \<Rightarrow> bool) \<Rightarrow> string \<Rightarrow> ws_client list \<Rightarrow> 'm effect list" where
  "forEach_send send_throws data [] = []"
| "forEach_send send_throws data (client # rest) =
     (if readyState client = 1
      then (if send_throws client then SendThrew client data else Sent client data)
             # forEach_send send_throws data rest
      else forEach_send send_throws data rest)"

definition broadcastToClients ::
  "('m \<Rightarrow> string) \<Rightarrow> (ws_client \<Rightarrow> bool) \<Rightarrow> 'm \<Rightarrow> ws_client list \<Rightarrow> ws_client list \<times> 'm effect list" where
  "broadcastToClients stringify send_throws message wsClients =
     (let data = stringify message
      in (wsClients, Serialize message # forEach_send send_throws data wsClients))"

fun is_Serialize :: "'m effect \<Rightarrow> bool" where
  "is_Serialize (Serialize _) = True"
| "is_Serialize _ = False"

text \<open>
  Two open sockets, and a \<open>send\<close> that throws for the first of them only.
\<close>

definition client_A :: ws_client where
  "client_A = \<lparr> client_id = 1, readyState = 1 \<rparr>"

definition client_B :: ws_client where
  "client_B = \<lparr> client_id = 2, readyState = 1 \<rparr>"

definition send_to_A_throws :: "ws_client \<Rightarrow> bool" where
  "send_to_A_throws client \<longleftrightarrow> client_id client = 1"

section \<open>Observations used in the statements\<close>

text \<open>
  \<open>leftDir\<close> and \<open>rightDir\<close> of a tick, as \<open>poll\<close> computes them from what the reads
  call back with; \<open>Rejected\<close> when a read fails.
\<close>

definition tick_directions ::
  "controller \<Rightarrow> hw_reads \<Rightarrow> (direction option \<times> direction option) settled" where
  "tick_directions c hw =
     (case read_all c hw of
        Rejected \<Rightarrow> Rejected
      | Resolved (lxRaw, lyRaw, rxRaw, ryRaw) \<Rightarrow>
          Resolved (getDirection c (applyDeadzone c lxRaw) (applyDeadzone c lyRaw),
                    getDirection c (applyDeadzone c rxRaw) (applyDeadzone c ryRaw)))"

text \<open>
  The configuration an options object asks for: every property it gives as given, every
  absent one at the default of the constructor.
\<close>

definition requested :: "ctor_options \<Rightarrow> config" where
  "requested opts =
     \<lparr> leftXChannel = (case opt_leftXChannel opts of None \<Rightarrow> 0 | Some n \<Rightarrow> n),
       leftYChannel = (case opt_leftYChannel opts of None \<Rightarrow> 1 | Some n \<Rightarrow> n),
       rightXChannel = (case opt_rightXChannel opts of None \<Rightarrow> 2 | Some n \<Rightarrow> n),
       rightYChannel = (case opt_rightYChannel opts of None \<Rightarrow> 3 | Some n \<Rightarrow> n),
       leftButtonPin = (case opt_leftButtonPin opts of None \<Rightarrow> 17 | Some n \<Rightarrow> n),
       rightButtonPin = (case opt_rightButtonPin opts of None \<Rightarrow> 27 | Some n \<Rightarrow> n),
       deadzone = (case opt_deadzone opts of None \<Rightarrow> 0.15 | Some n \<Rightarrow> n),
       pollInterval = (case opt_pollInterval opts of None \<Rightarrow> 50 | Some n \<Rightarrow> n),
       threshold = (case opt_threshold opts of None \<Rightarrow> 0.3 | Some n \<Rightarrow> n) \<rparr>"

text \<open>The controller of the server script once \<open>init\<close> has succeeded.\<close>

definition pi_controller :: controller where
  "pi_controller = fst (init (constructor no_options) InitOk)"

text \<open>The same controller after one accepted click of the left button: zoom mode on.\<close>

definition zoomed_controller :: controller where
  "zoomed_controller = fst (handleLeftButton pi_controller True 1000)"

text \<open>A controller whose \<open>init\<close> failed before any channel was opened (mock mode).\<close>

definition mock_controller :: "ctor_options \<Rightarrow> controller" where
  "mock_controller opts = fst (init (constructor opts) RequireThrows)"

text \<open>Reads of one tick in which the four channels call back with the given values.\<close>

definition reads_at :: "real \<Rightarrow> real \<Rightarrow> real \<Rightarrow> real \<Rightarrow> hw_reads" where
  "reads_at lx ly rx ry =
     \<lparr> hw_leftX = Reading lx, hw_leftY = Reading ly,
       hw_rightX = Reading rx, hw_rightY = Reading ry \<rparr>"

text \<open>
  The invariant of mock mode: no channel, a deadzone and a threshold under which the
  centre classifies to no direction, no direction recorded, no stick event emitted.
\<close>

definition quiet :: "runtime \<Rightarrow> bool" where
  "quiet r \<longleftrightarrow>
     channels (ctl r) = None
     \<and> 0 \<le> deadzone (options (ctl r))
     \<and> 0 < threshold (options (ctl r))
     \<and> lastDirection_left (ctl r) = None
     \<and> lastDirection_right (ctl r) = None
     \<and> filter stick_event (emitted r) = []"

section \<open>The button handlers, by cases\<close>

lemma handleLeftButton_cases:
  "handleLeftButton c pressed now =
     (if pressed \<and> now - lastLeftClick c > clickDebounce c
      then (c\<lparr> lastLeftClick := now, left_zoomMode := \<not> left_zoomMode c,
                left_button := pressed \<rparr>,
            [LeftClick (\<not> left_zoomMode c)])
      else (c\<lparr> left_button := pressed \<rparr>, []))"
  by (simp add: handleLeftButton_def)

lemma handleRightButton_cases:
  "handleRightButton c pressed now =
     (if pressed \<and> now - lastRightClick c > clickDebounce c
      then (c\<lparr> lastRightClick := now, right_button := pressed \<rparr>, [RightClick])
      else (c\<lparr> right_button := pressed \<rparr>, []))"
  by (simp add: handleRightButton_def)

section \<open>The direction classifier\<close>

text \<open>
  C7. \<open>getDirection\<close> returns \<open>null\<close> exactly when both magnitudes are below the
  threshold. Otherwise the axis of strictly larger magnitude decides, by its sign:
  positive x is right, negative x is left, positive y is down, negative y is up. A tie of
  the magnitudes goes to the y axis, so \<open>getDirection(x, x)\<close> with x at or above the
  threshold is down or up, never left or right.
\<close>

theorem getDirection_classifies:
  "(getDirection c x y = None \<longleftrightarrow> \<bar>x\<bar> < threshold (options c) \<and> \<bar>y\<bar> < threshold (options c))
   \<and> (\<not> (\<bar>x\<bar> < threshold (options c) \<and> \<bar>y\<bar> < threshold (options c)) \<longrightarrow>
        (\<bar>x\<bar> > \<bar>y\<bar> \<and> x > 0 \<longrightarrow> getDirection c x y = Some Right) \<and>
        (\<bar>x\<bar> > \<bar>y\<bar> \<and> x < 0 \<longrightarrow> getDirection c x y = Some Left) \<and>
        (\<bar>y\<bar> > \<bar>x\<bar> \<and> y > 0 \<longrightarrow> getDirection c x y = Some Down) \<and>
        (\<bar>y\<bar> > \<bar>x\<bar> \<and> y < 0 \<longrightarrow> getDirection c x y = Some Up) \<and>
        (\<bar>x\<bar> = \<bar>y\<bar> \<longrightarrow> getDirection c x y = (if y > 0 then Some Down else Some Up)))
   \<and> (x \<ge> threshold (options c) \<longrightarrow>
        getDirection c x x = (if x > 0 then Some Down else Some Up))"
  by (auto simp add: getDirection_def Let_def)

theorem getDirection_classifies_witness:
  "getDirection (constructor no_options) 0.5 0.5 = Some Down
   \<and> getDirection (constructor no_options) (- 0.5) (- 0.5) = Some Up
   \<and> getDirection (constructor no_options) 0.9 0.1 = Some Right
   \<and> getDirection (constructor no_options) (- 0.9) 0.1 = Some Left
   \<and> getDirection (constructor no_options) 0.1 (- 0.9) = Some Up
   \<and> getDirection (constructor no_options) 0.1 0.9 = Some Down
   \<and> getDirection (constructor no_options) 0.1 0.2 = None"
  using getDirection_classifies [of "constructor no_options" "0.5" "0.5"]
        getDirection_classifies [of "constructor no_options" "- 0.5" "- 0.5"]
        getDirection_classifies [of "constructor no_options" "0.9" "0.1"]
        getDirection_classifies [of "constructor no_options" "- 0.9" "0.1"]
        getDirection_classifies [of "constructor no_options" "0.1" "- 0.9"]
        getDirection_classifies [of "constructor no_options" "0.1" "0.9"]
        getDirection_classifies [of "constructor no_options" "0.1" "0.2"]
  by (simp add: constructor_def no_options_def or_default_def)

section \<open>The deadzone\<close>

text \<open>
  With a deadzone \<open>d\<close> in [0,1) the result times \<open>1 - d\<close> is the centred value shrunk
  towards 0 by \<open>d\<close>. (At \<open>d = 1\<close> and a reading of 0 or 1 JavaScript divides 0 by 0;
  no statement below is about that case.)
\<close>

lemma applyDeadzone_piecewise:
  assumes "0 \<le> deadzone (options c)" "deadzone (options c) < 1"
  shows "applyDeadzone c v =
           (max ((v - 0.5) * 2 - deadzone (options c)) 0
            + min ((v - 0.5) * 2 + deadzone (options c)) 0) / (1 - deadzone (options c))"
  using assms by (auto simp add: applyDeadzone_def Let_def max_def min_def abs_if divide_simps)

lemma applyDeadzone_mono:
  assumes "0 \<le> deadzone (options c)" "deadzone (options c) < 1" "r \<le> r'"
  shows "applyDeadzone c r \<le> applyDeadzone c r'"
proof -
  let ?d = "deadzone (options c)"
  have pos: "0 < 1 - ?d" using assms by simp
  have "max ((r - 0.5) * 2 - ?d) 0 + min ((r - 0.5) * 2 + ?d) 0
        \<le> max ((r' - 0.5) * 2 - ?d) 0 + min ((r' - 0.5) * 2 + ?d) 0"
    using assms(3) by (simp add: max_def min_def)
  then show ?thesis
    using pos assms by (simp add: applyDeadzone_piecewise divide_right_mono)
qed

lemma applyDeadzone_zero_iff:
  assumes "0 \<le> deadzone (options c)" "deadzone (options c) < 1"
  shows "applyDeadzone c r = 0 \<longleftrightarrow> \<bar>(r - 0.5) * 2\<bar> \<le> deadzone (options c)"
  using assms by (auto simp add: applyDeadzone_def Let_def abs_if split: if_splits)

lemma applyDeadzone_outside:
  assumes "0 \<le> deadzone (options c)" "deadzone (options c) < 1"
    "deadzone (options c) \<le> \<bar>(r - 0.5) * 2\<bar>"
  shows "applyDeadzone c r =
           sgn ((r - 0.5) * 2) * (\<bar>(r - 0.5) * 2\<bar> - deadzone (options c))
             / (1 - deadzone (options c))"
  using assms by (auto simp add: applyDeadzone_def Let_def sgn_if abs_if split: if_splits)

lemma applyDeadzone_bound:
  assumes "0 \<le> deadzone (options c)" "deadzone (options c) < 1" "0 \<le> r" "r \<le> 1"
  shows "\<bar>applyDeadzone c r\<bar> \<le> 1"
  using assms
  by (auto simp add: applyDeadzone_def Let_def abs_if divide_simps split: if_splits)

lemma applyDeadzone_ends:
  assumes "0 \<le> deadzone (options c)" "deadzone (options c) < 1"
  shows "applyDeadzone c 0 = - 1" "applyDeadzone c 1 = 1" "applyDeadzone c 0.5 = 0"
  using assms
  by (auto simp add: applyDeadzone_def Let_def abs_if divide_simps split: if_splits)

text \<open>
  C8. For a raw reading \<open>r\<close> in [0,1] and a deadzone \<open>d\<close> in [0,1), with
  \<open>centered = (r - 0.5) * 2\<close>: \<open>applyDeadzone\<close> returns 0 when \<open>|centered| < d\<close> and
  when \<open>|centered| = d\<close>, and in no other case; from \<open>|centered| \<ge> d\<close> on it returns
  \<open>sign(centered) * (|centered| - d) / (1 - d)\<close>. The result has magnitude at most 1, is 0
  at the centre 0.5, does not decrease when \<open>r\<close> grows, and is -1 at 0 and 1 at 1.
\<close>

theorem applyDeadzone_normalizes:
  assumes "0 \<le> r" "r \<le> 1" "0 \<le> deadzone (options c)" "deadzone (options c) < 1"
  shows "(\<bar>(r - 0.5) * 2\<bar> < deadzone (options c) \<longrightarrow> applyDeadzone c r = 0)
    \<and> (\<bar>(r - 0.5) * 2\<bar> = deadzone (options c) \<longrightarrow> applyDeadzone c r = 0)
    \<and> (applyDeadzone c r = 0 \<longleftrightarrow> \<bar>(r - 0.5) * 2\<bar> \<le> deadzone (options c))
    \<and> (deadzone (options c) \<le> \<bar>(r - 0.5) * 2\<bar> \<longrightarrow>
          applyDeadzone c r =
            sgn ((r - 0.5) * 2) * (\<bar>(r - 0.5) * 2\<bar> - deadzone (options c))
              / (1 - deadzone (options c)))
    \<and> \<bar>applyDeadzone c r\<bar> \<le> 1
    \<and> applyDeadzone c 0.5 = 0
    \<and> (\<forall>r'. r \<le> r' \<and> r' \<le> 1 \<longrightarrow> applyDeadzone c r \<le> applyDeadzone c r')
    \<and> applyDeadzone c 0 = - 1
    \<and> applyDeadzone c 1 = 1"
proof -
  have z: "applyDeadzone c r = 0 \<longleftrightarrow> \<bar>(r - 0.5) * 2\<bar> \<le> deadzone (options c)"
    using assms(3,4) by (rule applyDeadzone_zero_iff)
  have m: "\<forall>r'. r \<le> r' \<and> r' \<le> 1 \<longrightarrow> applyDeadzone c r \<le> applyDeadzone c r'"
    using assms(3,4) by (simp add: applyDeadzone_mono)
  show ?thesis
    using z m applyDeadzone_outside [OF assms(3,4)] applyDeadzone_bound [OF assms(3,4,1,2)]
      applyDeadzone_ends [OF assms(3,4)]
    by simp
qed

theorem applyDeadzone_normalizes_witness:
  "applyDeadzone (constructor no_options) 0.9 = 13 / 17
   \<and> applyDeadzone (constructor no_options) 0.575 = 0
   \<and> applyDeadzone (constructor no_options) 0.5 = 0
   \<and> applyDeadzone (constructor no_options) 0 = - 1
   \<and> applyDeadzone (constructor no_options) 1 = 1
   \<and> applyDeadzone (constructor no_options) 0.9 \<le> applyDeadzone (constructor no_options) 1"
proof -
  have d: "deadzone (options (constructor no_options)) = 0.15"
    by (simp add: constructor_def no_options_def or_default_def)
  have h: "(0::real) \<le> 0.9" "(0.9::real) \<le> 1" "(0::real) \<le> 0.575" "(0.575::real) \<le> 1"
    "0 \<le> deadzone (options (constructor no_options))"
    "deadzone (options (constructor no_options)) < 1"
    by (simp_all add: d)
  show ?thesis
    using applyDeadzone_normalizes [OF h(1,2,5,6)] applyDeadzone_normalizes [OF h(3,4,5,6)]
    by (simp add: d sgn_if)
qed

section \<open>The constructor\<close>

text \<open>
  The claim C10 ends: every options object with a 0 gets a configuration other than the one
  it asks for. With \<open>leftXChannel: 0\<close> it does not: the default of that property is 0.
\<close>

theorem constructor_zero_counterexample:
  "opt_leftXChannel (no_options\<lparr> opt_leftXChannel := Some 0 \<rparr>) = Some 0
   \<and> options (constructor (no_options\<lparr> opt_leftXChannel := Some 0 \<rparr>))
       = requested (no_options\<lparr> opt_leftXChannel := Some 0 \<rparr>)"
  by (simp add: constructor_def requested_def no_options_def or_default_def)

text \<open>
  C10, amended. The constructor merges with \<open>||\<close>, so a 0 gives the default: deadzone 0
  becomes 0.15, threshold 0 becomes 0.3, pollInterval 0 becomes 50, and a channel or pin
  of 0 becomes the default of its property (\<open>leftYChannel\<close> 0 becomes 1). For every
  options object with a 0 in a property other than \<open>leftXChannel\<close> the resulting
  configuration differs from the requested one; \<open>leftXChannel\<close> 0 gives 0, its
  default.
\<close>

theorem constructor_zero_defaults:
  "(opt_deadzone opts = Some 0 \<longrightarrow> deadzone (options (constructor opts)) = 0.15)
   \<and> (opt_threshold opts = Some 0 \<longrightarrow> threshold (options (constructor opts)) = 0.3)
   \<and> (opt_pollInterval opts = Some 0 \<longrightarrow> pollInterval (options (constructor opts)) = 50)
   \<and> (opt_leftXChannel opts = Some 0 \<longrightarrow> leftXChannel (options (constructor opts)) = 0)
   \<and> (opt_leftYChannel opts = Some 0 \<longrightarrow> leftYChannel (options (constructor opts)) = 1)
   \<and> (opt_rightXChannel opts = Some 0 \<longrightarrow> rightXChannel (options (constructor opts)) = 2)
   \<and> (opt_rightYChannel opts = Some 0 \<longrightarrow> rightYChannel (options (constructor opts)) = 3)
   \<and> (opt_leftButtonPin opts = Some 0 \<longrightarrow> leftButtonPin (options (constructor opts)) = 17)
   \<and> (opt_rightButtonPin opts = Some 0 \<longrightarrow> rightButtonPin (options (constructor opts)) = 27)
   \<and> (opt_deadzone opts = Some 0 \<or> opt_threshold opts = Some 0
        \<or> opt_pollInterval opts = Some 0 \<or> opt_leftYChannel opts = Some 0
        \<or> opt_rightXChannel opts = Some 0 \<or> opt_rightYChannel opts = Some 0
        \<or> opt_leftButtonPin opts = Some 0 \<or> opt_rightButtonPin opts = Some 0
        \<longrightarrow> options (constructor opts) \<noteq> requested opts)"
  by (auto simp add: constructor_def requested_def or_default_def split: option.splits)

theorem constructor_zero_defaults_witness:
  "deadzone (options (constructor (no_options\<lparr> opt_deadzone := Some 0, opt_leftYChannel := Some 0 \<rparr>))) = 0.15
   \<and> leftYChannel (options (constructor (no_options\<lparr> opt_deadzone := Some 0, opt_leftYChannel := Some 0 \<rparr>))) = 1
   \<and> options (constructor (no_options\<lparr> opt_deadzone := Some 0, opt_leftYChannel := Some 0 \<rparr>))
       \<noteq> requested (no_options\<lparr> opt_deadzone := Some 0, opt_leftYChannel := Some 0 \<rparr>)"
  using constructor_zero_defaults
          [of "no_options\<lparr> opt_deadzone := Some 0, opt_leftYChannel := Some 0 \<rparr>"]
  by (simp add: no_options_def)

text \<open>
  The claim C4 has the constructor reject a deadzone outside [0,1]. It accepts the deadzone
  5, and the controller starts: \<open>isRunning\<close> is set and a \<open>poll\<close> is under way.
\<close>

theorem constructor_accepts_counterexample:
  "deadzone (options (constructor (no_options\<lparr> opt_deadzone := Some 5 \<rparr>))) = 5
   \<and> \<not> (0 \<le> deadzone (options (constructor (no_options\<lparr> opt_deadzone := Some 5 \<rparr>)))
          \<and> deadzone (options (constructor (no_options\<lparr> opt_deadzone := Some 5 \<rparr>))) \<le> 1)
   \<and> isRunning (ctl (start (boot (constructor (no_options\<lparr> opt_deadzone := Some 5 \<rparr>)))))
   \<and> awaiting (start (boot (constructor (no_options\<lparr> opt_deadzone := Some 5 \<rparr>)))) = 1"
  by (simp add: constructor_def no_options_def or_default_def start_def boot_def poll_call_def)

text \<open>
  C4, amended. The constructor validates nothing and never fails: a deadzone, threshold or
  poll interval that is given and not 0 is taken as it is, whatever its value, also outside
  [0,1] or negative; the controller it returns is not running, and \<open>start\<close> starts it.
\<close>

theorem constructor_never_rejects:
  "(\<forall>d. opt_deadzone opts = Some d \<and> d \<noteq> 0 \<longrightarrow> deadzone (options (constructor opts)) = d)
   \<and> (\<forall>t. opt_threshold opts = Some t \<and> t \<noteq> 0 \<longrightarrow> threshold (options (constructor opts)) = t)
   \<and> (\<forall>i. opt_pollInterval opts = Some i \<and> i \<noteq> 0 \<longrightarrow>
          pollInterval (options (constructor opts)) = i)
   \<and> \<not> isRunning (constructor opts)
   \<and> isRunning (ctl (start (boot (constructor opts))))
   \<and> awaiting (start (boot (constructor opts))) = 1"
  by (simp add: constructor_def or_default_def start_def boot_def poll_call_def)

theorem constructor_never_rejects_witness:
  "deadzone (options (constructor
      (no_options\<lparr> opt_deadzone := Some 5, opt_pollInterval := Some (- 1), opt_threshold := Some (- 2) \<rparr>))) = 5
   \<and> threshold (options (constructor
      (no_options\<lparr> opt_deadzone := Some 5, opt_pollInterval := Some (- 1), opt_threshold := Some (- 2) \<rparr>))) = - 2
   \<and> pollInterval (options (constructor
      (no_options\<lparr> opt_deadzone := Some 5, opt_pollInterval := Some (- 1), opt_threshold := Some (- 2) \<rparr>))) = - 1
   \<and> isRunning (ctl (start (boot (constructor
      (no_options\<lparr> opt_deadzone := Some 5, opt_pollInterval := Some (- 1), opt_threshold := Some (- 2) \<rparr>)))))"
  using constructor_never_rejects
     [of "no_options\<lparr> opt_deadzone := Some 5, opt_pollInterval := Some (- 1), opt_threshold := Some (- 2) \<rparr>"]
  by (simp add: no_options_def)

section \<open>The debounce of the buttons\<close>

text \<open>
  The claim C3 has a press exactly at the window boundary accepted. After a click accepted
  at time 1000, a press at time 1200 (200 ms later, the window) emits nothing and leaves
  the timestamp at 1000.
\<close>

theorem debounce_boundary_counterexample:
  "snd (handleLeftButton (constructor no_options) True 1000) = [LeftClick True]
   \<and> lastLeftClick (fst (handleLeftButton (constructor no_options) True 1000)) = 1000
   \<and> 1200 - lastLeftClick (fst (handleLeftButton (constructor no_options) True 1000))
        \<ge> clickDebounce (fst (handleLeftButton (constructor no_options) True 1000))
   \<and> snd (handleLeftButton (fst (handleLeftButton (constructor no_options) True 1000)) True 1200) = []
   \<and> lastLeftClick
        (fst (handleLeftButton (fst (handleLeftButton (constructor no_options) True 1000)) True 1200))
      = 1000"
  by (simp add: handleLeftButton_cases constructor_def)

text \<open>
  C3, amended. A press at time \<open>now\<close> is accepted (timestamp updated, click event
  emitted; for the left button zoom mode toggled and carried by the event) if and only if
  \<open>now - lastAccepted > clickDebounce\<close>, with \<open>clickDebounce\<close> 200 ms: strictly more
  than the window. A press at the boundary or inside the window emits nothing and leaves
  timestamp and zoom mode as they are.
\<close>

theorem debounce_strict:
  "(now - lastLeftClick c > clickDebounce c \<longrightarrow>
      snd (handleLeftButton c True now) = [LeftClick (\<not> left_zoomMode c)]
      \<and> lastLeftClick (fst (handleLeftButton c True now)) = now
      \<and> left_zoomMode (fst (handleLeftButton c True now)) = (\<not> left_zoomMode c))
   \<and> (now - lastLeftClick c \<le> clickDebounce c \<longrightarrow>
      snd (handleLeftButton c True now) = []
      \<and> lastLeftClick (fst (handleLeftButton c True now)) = lastLeftClick c
      \<and> left_zoomMode (fst (handleLeftButton c True now)) = left_zoomMode c)
   \<and> (now - lastRightClick c > clickDebounce c \<longrightarrow>
      snd (handleRightButton c True now) = [RightClick]
      \<and> lastRightClick (fst (handleRightButton c True now)) = now)
   \<and> (now - lastRightClick c \<le> clickDebounce c \<longrightarrow>
      snd (handleRightButton c True now) = []
      \<and> lastRightClick (fst (handleRightButton c True now)) = lastRightClick c)
   \<and> clickDebounce (constructor opts) = 200"
  by (simp add: handleLeftButton_cases handleRightButton_cases constructor_def)

theorem debounce_strict_witness:
  "snd (handleLeftButton (constructor no_options) True 201) = [LeftClick True]
   \<and> snd (handleLeftButton (constructor no_options) True 200) = []
   \<and> snd (handleRightButton (constructor no_options) True 201) = [RightClick]
   \<and> snd (handleRightButton (constructor no_options) True 200) = []"
  using debounce_strict [where now = 201 and c = "constructor no_options" and opts = no_options]
        debounce_strict [where now = 200 and c = "constructor no_options" and opts = no_options]
  by (simp add: constructor_def)

section \<open>One poll tick\<close>

text \<open>What a tick computes depends on the options and the channels only.\<close>

lemma applyDeadzone_cong: "options c' = options c \<Longrightarrow> applyDeadzone c' v = applyDeadzone c v"
  by (simp add: applyDeadzone_def Let_def)

lemma getDirection_cong: "options c' = options c \<Longrightarrow> getDirection c' x y = getDirection c x y"
  by (simp add: getDirection_def Let_def)

lemma read_all_cong: "channels c' = channels c \<Longrightarrow> read_all c' hw = read_all c hw"
  by (simp add: read_all_def cong del: settled.case_cong_weak)

lemma tick_directions_cong:
  "options c' = options c \<Longrightarrow> channels c' = channels c \<Longrightarrow>
   tick_directions c' hw = tick_directions c hw"
  by (simp add: tick_directions_def read_all_cong [of c' c] applyDeadzone_cong [of c' c]
      getDirection_cong [of c' c] cong del: settled.case_cong_weak)

lemma left_stick_keeps:
  "options (fst (left_stick c d)) = options c"
  "channels (fst (left_stick c d)) = channels c"
  "left_zoomMode (fst (left_stick c d)) = left_zoomMode c"
  "lastDirection_right (fst (left_stick c d)) = lastDirection_right c"
  "lastDirection_left (fst (left_stick c d)) = d"
  by (simp_all add: left_stick_def)

lemma right_stick_keeps:
  "options (fst (right_stick c d)) = options c"
  "channels (fst (right_stick c d)) = channels c"
  "left_zoomMode (fst (right_stick c d)) = left_zoomMode c"
  "lastDirection_left (fst (right_stick c d)) = lastDirection_left c"
  "lastDirection_right (fst (right_stick c d)) = d"
  by (simp_all add: right_stick_def)


lemma left_stick_events_cong:
  "lastDirection_left c' = lastDirection_left c \<Longrightarrow> left_zoomMode c' = left_zoomMode c \<Longrightarrow>
   snd (left_stick c' d) = snd (left_stick c d)"
  by (simp add: left_stick_def split: option.splits)

lemma right_stick_events_cong:
  "lastDirection_right c' = lastDirection_right c \<Longrightarrow>
   snd (right_stick c' d) = snd (right_stick c d)"
  by (simp add: right_stick_def)

lemma poll_try_unfold:
  assumes "read_all c hw = Resolved (a, b, p, q)"
  shows "poll_try c hw =
    (fst (right_stick
       (fst (left_stick
          (c\<lparr> left_x := applyDeadzone c a, left_y := applyDeadzone c b,
              right_x := applyDeadzone c p, right_y := applyDeadzone c q \<rparr>)
          (getDirection c (applyDeadzone c a) (applyDeadzone c b))))
       (getDirection c (applyDeadzone c p) (applyDeadzone c q))),
     snd (left_stick c (getDirection c (applyDeadzone c a) (applyDeadzone c b)))
     @ snd (right_stick c (getDirection c (applyDeadzone c p) (applyDeadzone c q))))"
proof -
  let ?c1 = "c\<lparr> left_x := applyDeadzone c a, left_y := applyDeadzone c b,
              right_x := applyDeadzone c p, right_y := applyDeadzone c q \<rparr>"
  let ?l = "getDirection c (applyDeadzone c a) (applyDeadzone c b)"
  let ?r = "getDirection c (applyDeadzone c p) (applyDeadzone c q)"
  have g1: "getDirection ?c1 = getDirection c"
    by (intro ext, rule getDirection_cong) simp
  have g2: "getDirection (fst (left_stick ?c1 ?l)) = getDirection c"
    by (intro ext, rule getDirection_cong) (simp add: left_stick_keeps)
  have e1: "snd (left_stick ?c1 ?l) = snd (left_stick c ?l)"
    by (rule left_stick_events_cong) simp_all
  have e2: "snd (right_stick (fst (left_stick ?c1 ?l)) ?r) = snd (right_stick c ?r)"
    by (rule right_stick_events_cong) (simp add: left_stick_keeps)
  have "poll_try c hw =
      (case left_stick ?c1 (getDirection ?c1 (applyDeadzone c a) (applyDeadzone c b)) of
        (c2, evL) \<Rightarrow>
          (case right_stick c2 (getDirection c2 (applyDeadzone c p) (applyDeadzone c q)) of
            (c3, evR) \<Rightarrow> (c3, evL @ evR)))"
    unfolding poll_try_def assms Let_def by simp
  also have "\<dots> = (fst (right_stick (fst (left_stick ?c1 ?l)) ?r),
       snd (left_stick ?c1 ?l) @ snd (right_stick (fst (left_stick ?c1 ?l)) ?r))"
    unfolding g1 by (simp only: split_beta g2)
  finally show ?thesis by (simp only: e1 e2)
qed


lemma poll_try_rejected:
  "tick_directions c hw = Rejected \<Longrightarrow> poll_try c hw = (c, [])"
  by (simp add: tick_directions_def poll_try_def split: settled.splits prod.splits)

lemma poll_try_resolved:
  assumes "tick_directions c hw = Resolved (l, r)"
  shows "snd (poll_try c hw) = snd (left_stick c l) @ snd (right_stick c r)"
    and "lastDirection_left (fst (poll_try c hw)) = l"
    and "lastDirection_right (fst (poll_try c hw)) = r"
    and "options (fst (poll_try c hw)) = options c"
    and "channels (fst (poll_try c hw)) = channels c"
    and "left_zoomMode (fst (poll_try c hw)) = left_zoomMode c"
proof -
  obtain a b p q where ra: "read_all c hw = Resolved (a, b, p, q)"
    and l: "l = getDirection c (applyDeadzone c a) (applyDeadzone c b)"
    and r: "r = getDirection c (applyDeadzone c p) (applyDeadzone c q)"
    using assms by (auto simp add: tick_directions_def split: settled.splits prod.splits)
  note u = poll_try_unfold [OF ra]
  show "snd (poll_try c hw) = snd (left_stick c l) @ snd (right_stick c r)"
    by (simp add: u l r)
  show "lastDirection_left (fst (poll_try c hw)) = l"
    by (simp add: u l r right_stick_keeps left_stick_keeps)
  show "lastDirection_right (fst (poll_try c hw)) = r"
    by (simp add: u l r right_stick_keeps left_stick_keeps)
  show "options (fst (poll_try c hw)) = options c"
    by (simp add: u right_stick_keeps left_stick_keeps)
  show "channels (fst (poll_try c hw)) = channels c"
    by (simp add: u right_stick_keeps left_stick_keeps)
  show "left_zoomMode (fst (poll_try c hw)) = left_zoomMode c"
    by (simp add: u right_stick_keeps left_stick_keeps)
qed

lemma poll_try_keeps:
  "options (fst (poll_try c hw)) = options c"
  "channels (fst (poll_try c hw)) = channels c"
  "left_zoomMode (fst (poll_try c hw)) = left_zoomMode c"
proof -
  show "options (fst (poll_try c hw)) = options c"
    by (cases "tick_directions c hw")
       (auto simp add: poll_try_resolved(4) poll_try_rejected)
  show "channels (fst (poll_try c hw)) = channels c"
    by (cases "tick_directions c hw")
       (auto simp add: poll_try_resolved(5) poll_try_rejected)
  show "left_zoomMode (fst (poll_try c hw)) = left_zoomMode c"
    by (cases "tick_directions c hw")
       (auto simp add: poll_try_resolved(6) poll_try_rejected)
qed

lemma filter_stick_events:
  "filter left_stick_event (snd (left_stick c l)) = snd (left_stick c l)"
  "filter left_stick_event (snd (right_stick c r)) = []"
  "filter right_stick_event (snd (left_stick c l)) = []"
  "filter right_stick_event (snd (right_stick c r)) = snd (right_stick c r)"
  by (simp_all add: left_stick_def right_stick_def split: option.splits)

lemma poll_try_left_events:
  "filter left_stick_event (snd (poll_try c hw)) =
     (case tick_directions c hw of Rejected \<Rightarrow> [] | Resolved (l, r) \<Rightarrow> snd (left_stick c l))"
  by (cases "tick_directions c hw")
     (auto simp add: poll_try_resolved(1) poll_try_rejected filter_stick_events)

lemma poll_try_right_events:
  "filter right_stick_event (snd (poll_try c hw)) =
     (case tick_directions c hw of Rejected \<Rightarrow> [] | Resolved (l, r) \<Rightarrow> snd (right_stick c r))"
  by (cases "tick_directions c hw")
     (auto simp add: poll_try_resolved(1) poll_try_rejected filter_stick_events)

lemma tick_directions_after_poll:
  "tick_directions (fst (poll_try c hw)) hw' = tick_directions c hw'"
  by (rule tick_directions_cong) (simp_all add: poll_try_keeps)

lemma ticks_Cons_events:
  "snd (ticks c (hw # hws)) = snd (poll_try c hw) @ snd (ticks (fst (poll_try c hw)) hws)"
  by (simp add: split_beta)

lemma held_left_silent:
  assumes "\<forall>hw \<in> set hws. \<exists>r. tick_directions c hw = Resolved (Some d, r)"
    and "lastDirection_left c = Some d"
  shows "filter left_stick_event (snd (ticks c hws)) = []"
  using assms
proof (induction hws arbitrary: c)
  case Nil
  show ?case by simp
next
  case (Cons hw hws)
  from Cons.prems(1) obtain r where t: "tick_directions c hw = Resolved (Some d, r)"
    by auto
  have now: "filter left_stick_event (snd (poll_try c hw)) = []"
    using Cons.prems(2) by (simp add: poll_try_left_events t left_stick_def)
  have later: "filter left_stick_event (snd (ticks (fst (poll_try c hw)) hws)) = []"
  proof (rule Cons.IH)
    show "\<forall>hw' \<in> set hws. \<exists>r. tick_directions (fst (poll_try c hw)) hw' = Resolved (Some d, r)"
      using Cons.prems(1) by (simp add: tick_directions_after_poll)
    show "lastDirection_left (fst (poll_try c hw)) = Some d"
      by (rule poll_try_resolved(2) [OF t])
  qed
  show ?case
    by (simp only: ticks_Cons_events filter_append now later append_Nil)
qed

lemma held_right_silent:
  assumes "\<forall>hw \<in> set hws. \<exists>l. tick_directions c hw = Resolved (l, Some d)"
    and "lastDirection_right c = Some d"
  shows "filter right_stick_event (snd (ticks c hws)) = []"
  using assms
proof (induction hws arbitrary: c)
  case Nil
  show ?case by simp
next
  case (Cons hw hws)
  from Cons.prems(1) obtain l where t: "tick_directions c hw = Resolved (l, Some d)"
    by auto
  have now: "filter right_stick_event (snd (poll_try c hw)) = []"
    using Cons.prems(2) by (simp add: poll_try_right_events t right_stick_def)
  have later: "filter right_stick_event (snd (ticks (fst (poll_try c hw)) hws)) = []"
  proof (rule Cons.IH)
    show "\<forall>hw' \<in> set hws. \<exists>l. tick_directions (fst (poll_try c hw)) hw' = Resolved (l, Some d)"
      using Cons.prems(1) by (simp add: tick_directions_after_poll)
    show "lastDirection_right (fst (poll_try c hw)) = Some d"
      by (rule poll_try_resolved(3) [OF t])
  qed
  show ?case
    by (simp only: ticks_Cons_events filter_append now later append_Nil)
qed

lemma held_left_once:
  assumes "hws \<noteq> []"
    and "\<forall>hw \<in> set hws. \<exists>r. tick_directions c hw = Resolved (Some d, r)"
    and "lastDirection_left c \<noteq> Some d"
  shows "filter left_stick_event (snd (ticks c hws)) =
           (if left_zoomMode c
            then (if d = Up then [Zoom ZoomIn] else if d = Down then [Zoom ZoomOut] else [])
            else [Pan d])"
proof -
  obtain hw rest where hws: "hws = hw # rest"
    using assms(1) by (cases hws) auto
  obtain r where t: "tick_directions c hw = Resolved (Some d, r)"
    using assms(2) hws by auto
  have first: "filter left_stick_event (snd (poll_try c hw)) =
           (if left_zoomMode c
            then (if d = Up then [Zoom ZoomIn] else if d = Down then [Zoom ZoomOut] else [])
            else [Pan d])"
    using assms(3) by (simp add: poll_try_left_events t left_stick_def)
  have later: "filter left_stick_event (snd (ticks (fst (poll_try c hw)) rest)) = []"
  proof (rule held_left_silent)
    show "\<forall>hw' \<in> set rest. \<exists>r. tick_directions (fst (poll_try c hw)) hw' = Resolved (Some d, r)"
      using assms(2) hws by (simp add: tick_directions_after_poll)
    show "lastDirection_left (fst (poll_try c hw)) = Some d"
      by (rule poll_try_resolved(2) [OF t])
  qed
  show ?thesis
    unfolding hws by (simp only: ticks_Cons_events filter_append first later append_Nil2)
qed

lemma held_right_once:
  assumes "hws \<noteq> []"
    and "\<forall>hw \<in> set hws. \<exists>l. tick_directions c hw = Resolved (l, Some d)"
    and "lastDirection_right c \<noteq> Some d"
  shows "filter right_stick_event (snd (ticks c hws)) = [Navigate d]"
proof -
  obtain hw rest where hws: "hws = hw # rest"
    using assms(1) by (cases hws) auto
  obtain l where t: "tick_directions c hw = Resolved (l, Some d)"
    using assms(2) hws by auto
  have first: "filter right_stick_event (snd (poll_try c hw)) = [Navigate d]"
    using assms(3) by (simp add: poll_try_right_events t right_stick_def)
  have later: "filter right_stick_event (snd (ticks (fst (poll_try c hw)) rest)) = []"
  proof (rule held_right_silent)
    show "\<forall>hw' \<in> set rest. \<exists>l. tick_directions (fst (poll_try c hw)) hw' = Resolved (l, Some d)"
      using assms(2) hws by (simp add: tick_directions_after_poll)
    show "lastDirection_right (fst (poll_try c hw)) = Some d"
      by (rule poll_try_resolved(3) [OF t])
  qed
  show ?thesis
    unfolding hws by (simp only: ticks_Cons_events filter_append first later append_Nil2)
qed

subsection \<open>Two controllers on concrete reads\<close>

lemmas eval_defs =
  pi_controller_def zoomed_controller_def init_def constructor_def no_options_def
  or_default_def open_channels_def reads_at_def handleLeftButton_cases

lemma pi_fields:
  "lastDirection_left pi_controller = None" "lastDirection_right pi_controller = None"
  "left_zoomMode pi_controller = False"
  "lastDirection_left zoomed_controller = None" "lastDirection_right zoomed_controller = None"
  "left_zoomMode zoomed_controller"
  by (simp_all add: eval_defs)

lemma pi_config:
  "options pi_controller = options (constructor no_options)"
  "options zoomed_controller = options (constructor no_options)"
  "deadzone (options (constructor no_options)) = 0.15"
  "threshold (options (constructor no_options)) = 0.3"
  by (simp_all add: eval_defs)

lemma pi_read_all:
  "read_all pi_controller (reads_at a b p q) = Resolved (a, b, p, q)"
  "read_all zoomed_controller (reads_at a b p q) = Resolved (a, b, p, q)"
  by (simp_all add: eval_defs read_all_def readChannel_def)

lemma pi_tick_directions:
  "tick_directions pi_controller (reads_at 0.9 0.5 0.5 0.1) = Resolved (Some Right, Some Up)"
  "tick_directions pi_controller (reads_at 0.9 0.5 0.5 0.5) = Resolved (Some Right, None)"
  "tick_directions pi_controller (reads_at 0.5 0.1 0.5 0.5) = Resolved (Some Up, None)"
  "tick_directions pi_controller (reads_at 0.5 0.5 0.5 0.5) = Resolved (None, None)"
  "tick_directions zoomed_controller (reads_at 0.5 0.9 0.9 0.5) = Resolved (Some Down, Some Right)"
  "tick_directions zoomed_controller (reads_at 0.5 0.1 0.5 0.5) = Resolved (Some Up, None)"
  "tick_directions zoomed_controller (reads_at 0.1 0.5 0.5 0.5) = Resolved (Some Left, None)"
  by (simp_all add: tick_directions_def pi_read_all applyDeadzone_def getDirection_def
      pi_config Let_def)

section \<open>Events of the sticks\<close>

text \<open>
  C6. On a tick whose reads succeed and whose left direction differs from the recorded
  one: in zoom mode up emits \<open>zoom {direction: "in"}\<close>, down emits
  \<open>zoom {direction: "out"}\<close> and left and right emit nothing; out of zoom mode a
  direction emits \<open>pan\<close> with it. A right direction that differs from the recorded one
  emits \<open>navigate\<close> with it, whatever the zoom mode.
\<close>

theorem poll_events_by_mode:
  assumes "tick_directions c hw = Resolved (leftDir, rightDir)"
  shows "(leftDir \<noteq> lastDirection_left c \<and> left_zoomMode c \<longrightarrow>
            (leftDir = Some Up \<longrightarrow>
               filter left_stick_event (snd (poll_try c hw)) = [Zoom ZoomIn])
            \<and> (leftDir = Some Down \<longrightarrow>
               filter left_stick_event (snd (poll_try c hw)) = [Zoom ZoomOut])
            \<and> (leftDir = Some Left \<or> leftDir = Some Right \<longrightarrow>
               filter left_stick_event (snd (poll_try c hw)) = []))
     \<and> (leftDir \<noteq> lastDirection_left c \<and> \<not> left_zoomMode c \<longrightarrow>
            (\<forall>d. leftDir = Some d \<longrightarrow>
               filter left_stick_event (snd (poll_try c hw)) = [Pan d]))
     \<and> (rightDir \<noteq> lastDirection_right c \<longrightarrow>
            (\<forall>d. rightDir = Some d \<longrightarrow>
               filter right_stick_event (snd (poll_try c hw)) = [Navigate d]))"
  by (auto simp add: poll_try_left_events poll_try_right_events assms left_stick_def
      right_stick_def)

theorem poll_events_by_mode_witness:
  "filter left_stick_event (snd (poll_try zoomed_controller (reads_at 0.5 0.9 0.9 0.5)))
     = [Zoom ZoomOut]
   \<and> filter right_stick_event (snd (poll_try zoomed_controller (reads_at 0.5 0.9 0.9 0.5)))
     = [Navigate Right]
   \<and> filter left_stick_event (snd (poll_try zoomed_controller (reads_at 0.5 0.1 0.5 0.5)))
     = [Zoom ZoomIn]
   \<and> filter left_stick_event (snd (poll_try zoomed_controller (reads_at 0.1 0.5 0.5 0.5)))
     = []
   \<and> filter left_stick_event (snd (poll_try pi_controller (reads_at 0.9 0.5 0.5 0.1)))
     = [Pan Right]
   \<and> filter right_stick_event (snd (poll_try pi_controller (reads_at 0.9 0.5 0.5 0.1)))
     = [Navigate Up]"
  using poll_events_by_mode [OF pi_tick_directions(5)] poll_events_by_mode [OF pi_tick_directions(6)]
    poll_events_by_mode [OF pi_tick_directions(7)] poll_events_by_mode [OF pi_tick_directions(1)]
  by (simp add: pi_fields)

lemma zoomed_left_silent:
  assumes t0: "tick_directions c h = Resolved (Some Left, None)"
    and z0: "left_zoomMode c"
    and r0: "lastDirection_right c = None"
  shows "snd (poll_try c h) = []"
    and "tick_directions (fst (poll_try c h)) h = Resolved (Some Left, None)"
    and "left_zoomMode (fst (poll_try c h))"
    and "lastDirection_right (fst (poll_try c h)) = None"
    and "lastDirection_left (fst (poll_try c h)) = Some Left"
proof -
  show "snd (poll_try c h) = []"
    unfolding poll_try_resolved(1) [OF t0]
    by (simp add: left_stick_def right_stick_def z0 r0)
  show "tick_directions (fst (poll_try c h)) h = Resolved (Some Left, None)"
    by (simp only: tick_directions_after_poll t0)
  show "left_zoomMode (fst (poll_try c h))"
    by (simp add: poll_try_keeps z0)
  show "lastDirection_right (fst (poll_try c h)) = None"
    using poll_try_resolved(3) [OF t0] .
  show "lastDirection_left (fst (poll_try c h)) = Some Left"
    using poll_try_resolved(2) [OF t0] .
qed

text \<open>
  The claim C5 has a direction held for N ticks emit exactly one event. In zoom mode the
  left stick held to the left for three ticks emits none, while the direction is recorded.
\<close>

theorem held_left_zoomed_counterexample:
  "tick_directions zoomed_controller (reads_at 0.1 0.5 0.5 0.5) = Resolved (Some Left, None)
   \<and> lastDirection_left zoomed_controller = None
   \<and> lastDirection_left
        (fst (ticks zoomed_controller
           [reads_at 0.1 0.5 0.5 0.5, reads_at 0.1 0.5 0.5 0.5, reads_at 0.1 0.5 0.5 0.5]))
      = Some Left
   \<and> snd (ticks zoomed_controller
        [reads_at 0.1 0.5 0.5 0.5, reads_at 0.1 0.5 0.5 0.5, reads_at 0.1 0.5 0.5 0.5]) = []"
proof -
  define h where "h = reads_at 0.1 0.5 0.5 0.5"
  have t0: "tick_directions zoomed_controller h = Resolved (Some Left, None)"
    unfolding h_def by (rule pi_tick_directions(7))
  note s0 = zoomed_left_silent [OF t0 pi_fields(6) pi_fields(5)]
  note s1 = zoomed_left_silent [OF s0(2,3,4)]
  note s2 = zoomed_left_silent [OF s1(2,3,4)]
  have "snd (ticks zoomed_controller [h, h, h]) = []"
    by (simp add: split_beta s0(1) s1(1) s2(1))
  moreover have "lastDirection_left (fst (ticks zoomed_controller [h, h, h])) = Some Left"
    by (simp add: split_beta s2(5))
  ultimately show ?thesis
    using t0 pi_fields(4) unfolding h_def by (simp only: simp_thms)
qed

text \<open>
  C5, amended. Emission is edge-triggered. A tick emits an event of a stick only if its
  reads succeed and the stick's direction is a direction other than the recorded one. A
  direction held for one or more consecutive ticks, other than the one recorded before
  them, emits at most one event of that stick: for the right stick one \<open>navigate\<close>; for
  the left stick one \<open>pan\<close> out of zoom mode, one \<open>zoom\<close> for up or down in zoom mode,
  and none for left or right in zoom mode. A tick that classifies a stick to no direction
  records that and emits nothing for the stick.
\<close>

theorem edge_triggered:
  "(filter left_stick_event (snd (poll_try c hw)) \<noteq> [] \<longrightarrow>
      (\<exists>l r. tick_directions c hw = Resolved (l, r) \<and> l \<noteq> lastDirection_left c \<and> l \<noteq> None))
   \<and> (filter right_stick_event (snd (poll_try c hw)) \<noteq> [] \<longrightarrow>
      (\<exists>l r. tick_directions c hw = Resolved (l, r) \<and> r \<noteq> lastDirection_right c \<and> r \<noteq> None))
   \<and> (hws \<noteq> [] \<and> (\<forall>h \<in> set hws. \<exists>r. tick_directions c h = Resolved (Some d, r))
        \<and> lastDirection_left c \<noteq> Some d \<longrightarrow>
      filter left_stick_event (snd (ticks c hws)) =
        (if left_zoomMode c
         then (if d = Up then [Zoom ZoomIn] else if d = Down then [Zoom ZoomOut] else [])
         else [Pan d]))
   \<and> (hws \<noteq> [] \<and> (\<forall>h \<in> set hws. \<exists>l. tick_directions c h = Resolved (l, Some d))
        \<and> lastDirection_right c \<noteq> Some d \<longrightarrow>
      filter right_stick_event (snd (ticks c hws)) = [Navigate d])
   \<and> (\<forall>r. tick_directions c hw = Resolved (None, r) \<longrightarrow>
        lastDirection_left (fst (poll_try c hw)) = None
        \<and> filter left_stick_event (snd (poll_try c hw)) = [])
   \<and> (\<forall>l. tick_directions c hw = Resolved (l, None) \<longrightarrow>
        lastDirection_right (fst (poll_try c hw)) = None
        \<and> filter right_stick_event (snd (poll_try c hw)) = [])"
proof -
  have a: "filter left_stick_event (snd (poll_try c hw)) \<noteq> [] \<longrightarrow>
      (\<exists>l r. tick_directions c hw = Resolved (l, r) \<and> l \<noteq> lastDirection_left c \<and> l \<noteq> None)"
    by (cases "tick_directions c hw")
       (auto simp add: poll_try_left_events left_stick_def split: if_splits option.splits)
  have b: "filter right_stick_event (snd (poll_try c hw)) \<noteq> [] \<longrightarrow>
      (\<exists>l r. tick_directions c hw = Resolved (l, r) \<and> r \<noteq> lastDirection_right c \<and> r \<noteq> None)"
    by (cases "tick_directions c hw")
       (auto simp add: poll_try_right_events right_stick_def split: if_splits option.splits)
  have e: "\<forall>r. tick_directions c hw = Resolved (None, r) \<longrightarrow>
        lastDirection_left (fst (poll_try c hw)) = None
        \<and> filter left_stick_event (snd (poll_try c hw)) = []"
    by (auto simp add: poll_try_left_events poll_try_resolved(2) left_stick_def)
  have f: "\<forall>l. tick_directions c hw = Resolved (l, None) \<longrightarrow>
        lastDirection_right (fst (poll_try c hw)) = None
        \<and> filter right_stick_event (snd (poll_try c hw)) = []"
    by (auto simp add: poll_try_right_events poll_try_resolved(3) right_stick_def)
  show ?thesis
    using a b e f held_left_once [of hws c d] held_right_once [of hws c d]
    by blast
qed

theorem edge_triggered_witness:
  "filter left_stick_event
     (snd (ticks pi_controller
        [reads_at 0.5 0.1 0.5 0.5, reads_at 0.5 0.1 0.5 0.5, reads_at 0.5 0.1 0.5 0.5]))
     = [Pan Up]
   \<and> filter left_stick_event
     (snd (ticks zoomed_controller
        [reads_at 0.5 0.1 0.5 0.5, reads_at 0.5 0.1 0.5 0.5, reads_at 0.5 0.1 0.5 0.5]))
     = [Zoom ZoomIn]
   \<and> filter right_stick_event
     (snd (ticks zoomed_controller [reads_at 0.5 0.9 0.9 0.5, reads_at 0.5 0.9 0.9 0.5]))
     = [Navigate Right]
   \<and> lastDirection_left (fst (poll_try pi_controller (reads_at 0.5 0.5 0.5 0.5))) = None
   \<and> filter left_stick_event (snd (poll_try pi_controller (reads_at 0.5 0.5 0.5 0.5))) = []"
proof -
  define up where "up = reads_at 0.5 0.1 0.5 0.5"
  define dr where "dr = reads_at 0.5 0.9 0.9 0.5"
  define rest where "rest = reads_at 0.5 0.5 0.5 0.5"
  have t: "tick_directions pi_controller up = Resolved (Some Up, None)"
    "tick_directions zoomed_controller up = Resolved (Some Up, None)"
    "tick_directions zoomed_controller dr = Resolved (Some Down, Some Right)"
    "tick_directions pi_controller rest = Resolved (None, None)"
    unfolding up_def dr_def rest_def by (rule pi_tick_directions)+
  have "filter left_stick_event (snd (ticks pi_controller [up, up, up])) = [Pan Up]"
    using edge_triggered [of pi_controller up "[up, up, up]" Up] by (simp add: t pi_fields)
  moreover have "filter left_stick_event (snd (ticks zoomed_controller [up, up, up])) = [Zoom ZoomIn]"
    using edge_triggered [of zoomed_controller up "[up, up, up]" Up] by (simp add: t pi_fields)
  moreover have "filter right_stick_event (snd (ticks zoomed_controller [dr, dr])) = [Navigate Right]"
    using edge_triggered [of zoomed_controller dr "[dr, dr]" Right] by (simp add: t pi_fields)
  moreover have "lastDirection_left (fst (poll_try pi_controller rest)) = None
     \<and> filter left_stick_event (snd (poll_try pi_controller rest)) = []"
    using edge_triggered [of pi_controller rest "[]" Up] by (simp add: t)
  ultimately show ?thesis
    unfolding up_def dr_def rest_def by (simp only: simp_thms)
qed

section \<open>Mock mode\<close>

lemma applyDeadzone_centre:
  "0 \<le> deadzone (options c) \<Longrightarrow> applyDeadzone c 0.5 = 0"
  by (simp add: applyDeadzone_def Let_def)

lemma mock_read_all:
  "channels c = None \<Longrightarrow> read_all c hw = Resolved (0.5, 0.5, 0.5, 0.5)"
  by (simp add: read_all_def readChannel_def)

lemma mock_tick_directions:
  assumes "channels c = None" "0 \<le> deadzone (options c)" "0 < threshold (options c)"
  shows "tick_directions c hw = Resolved (None, None)"
  using assms applyDeadzone_centre [of c]
  by (simp add: tick_directions_def mock_read_all getDirection_def)

lemma quiet_poll_try:
  assumes "quiet r"
  shows "snd (poll_try (ctl r) hw) = []"
    and "channels (fst (poll_try (ctl r) hw)) = None"
    and "options (fst (poll_try (ctl r) hw)) = options (ctl r)"
    and "lastDirection_left (fst (poll_try (ctl r) hw)) = None"
    and "lastDirection_right (fst (poll_try (ctl r) hw)) = None"
proof -
  have t: "tick_directions (ctl r) hw = Resolved (None, None)"
    using assms by (simp add: quiet_def mock_tick_directions)
  show "snd (poll_try (ctl r) hw) = []"
    using assms unfolding poll_try_resolved(1) [OF t]
    by (simp add: quiet_def left_stick_def right_stick_def)
  show "channels (fst (poll_try (ctl r) hw)) = None"
    using assms by (simp add: poll_try_keeps quiet_def)
  show "options (fst (poll_try (ctl r) hw)) = options (ctl r)"
    by (simp add: poll_try_keeps)
  show "lastDirection_left (fst (poll_try (ctl r) hw)) = None"
    by (rule poll_try_resolved(2) [OF t])
  show "lastDirection_right (fst (poll_try (ctl r) hw)) = None"
    by (rule poll_try_resolved(3) [OF t])
qed

lemma quiet_poll_call: "quiet r \<Longrightarrow> quiet (poll_call r)"
  by (simp add: quiet_def poll_call_def)

lemma quiet_start: "quiet r \<Longrightarrow> quiet (start r)"
  by (simp add: quiet_def start_def poll_call_def)

lemma quiet_stop: "quiet r \<Longrightarrow> quiet (stop r)"
  by (simp add: quiet_def stop_def Let_def split: option.splits)

lemma quiet_poll_resume:
  assumes "quiet r"
  shows "quiet (poll_resume r hw)"
  using assms quiet_poll_try [OF assms, of hw]
  by (simp add: quiet_def poll_resume_def Let_def split_beta)

lemma quiet_buttons:
  assumes "quiet r"
  shows "quiet (step r (LeftButton pressed now))" "quiet (step r (RightButton pressed now))"
  using assms
  by (simp_all add: quiet_def handleLeftButton_cases handleRightButton_cases split_beta)

lemma quiet_step:
  assumes q: "quiet r"
  shows "quiet (step r a)"
proof (cases a)
  case CallStart
  then show ?thesis using q by (simp add: quiet_start)
next
  case CallStop
  then show ?thesis using q by (simp add: quiet_stop)
next
  case (ReadsSettle hw)
  then show ?thesis using q by (simp add: quiet_poll_resume)
next
  case (TimerFires h)
  have "quiet (r\<lparr> timers := removeAll h (timers r) \<rparr>)"
    using q by (simp add: quiet_def)
  then show ?thesis
    using q TimerFires by (simp add: quiet_poll_call)
next
  case (LeftButton pressed now)
  show ?thesis unfolding LeftButton by (rule quiet_buttons(1) [OF q])
next
  case (RightButton pressed now)
  show ?thesis unfolding RightButton by (rule quiet_buttons(2) [OF q])
qed

lemma quiet_run: "quiet r \<Longrightarrow> quiet (run r acts)"
  unfolding run_def
  by (induction acts arbitrary: r) (simp_all add: quiet_step)

lemma mock_controller_quiet:
  assumes "0 \<le> deadzone (options (mock_controller opts))"
    and "0 < threshold (options (mock_controller opts))"
  shows "quiet (boot (mock_controller opts))"
  using assms by (simp add: quiet_def boot_def mock_controller_def init_def constructor_def)

lemmas run_defs =
  run_def start_def stop_def poll_call_def poll_resume_def boot_def poll_try_def
  read_all_def readChannel_def left_stick_def right_stick_def applyDeadzone_def
  getDirection_def handleRightButton_cases Let_def split_beta

text \<open>
  The claim C9 has mock mode silent in every run. The constructor accepts the threshold
  -2; in mock mode the centre then classifies to up on both sticks, and the first tick
  after \<open>start\<close> emits \<open>pan\<close> and \<open>navigate\<close>.
\<close>

theorem mock_mode_negative_threshold_counterexample:
  "channels (mock_controller (no_options\<lparr> opt_threshold := Some (- 2) \<rparr>)) = None
   \<and> threshold (options (mock_controller (no_options\<lparr> opt_threshold := Some (- 2) \<rparr>))) = - 2
   \<and> emitted (run (boot (mock_controller (no_options\<lparr> opt_threshold := Some (- 2) \<rparr>)))
        [CallStart, ReadsSettle (reads_at 0.5 0.5 0.5 0.5)]) = [Pan Up, Navigate Up]"
  by (simp add: run_defs mock_controller_def eval_defs)

text \<open>
  C9, amended. In mock mode (\<open>init\<close> failed before a channel was opened) every analog
  read resolves to 0.5 on every tick. If the deadzone of the controller is at least 0 and
  its threshold is above 0, then 0.5 normalizes to 0 and classifies to no direction, and
  whatever happens from the initial state, in any order and number (starts, stops, ticks,
  timers, button edges), no \<open>zoom\<close>, \<open>pan\<close> or \<open>navigate\<close> event is ever emitted.
\<close>

theorem mock_mode_silent:
  "channels (mock_controller opts) = None
   \<and> readChannel (map_option leftX (channels (mock_controller opts))) hw1 = Resolved 0.5
   \<and> readChannel (map_option leftY (channels (mock_controller opts))) hw2 = Resolved 0.5
   \<and> readChannel (map_option rightX (channels (mock_controller opts))) hw3 = Resolved 0.5
   \<and> readChannel (map_option rightY (channels (mock_controller opts))) hw4 = Resolved 0.5
   \<and> (0 \<le> deadzone (options (mock_controller opts))
        \<and> 0 < threshold (options (mock_controller opts)) \<longrightarrow>
          applyDeadzone (ctl (run (boot (mock_controller opts)) acts)) 0.5 = 0
          \<and> getDirection (ctl (run (boot (mock_controller opts)) acts)) 0 0 = None
          \<and> filter stick_event (emitted (run (boot (mock_controller opts)) acts)) = [])"
proof -
  have ch: "channels (mock_controller opts) = None"
    by (simp add: mock_controller_def init_def constructor_def)
  have rd: "readChannel (map_option leftX (channels (mock_controller opts))) hw1 = Resolved 0.5"
    "readChannel (map_option leftY (channels (mock_controller opts))) hw2 = Resolved 0.5"
    "readChannel (map_option rightX (channels (mock_controller opts))) hw3 = Resolved 0.5"
    "readChannel (map_option rightY (channels (mock_controller opts))) hw4 = Resolved 0.5"
    by (simp_all add: ch readChannel_def)
  have run: "applyDeadzone (ctl (run (boot (mock_controller opts)) acts)) 0.5 = 0
          \<and> getDirection (ctl (run (boot (mock_controller opts)) acts)) 0 0 = None
          \<and> filter stick_event (emitted (run (boot (mock_controller opts)) acts)) = []"
    if d: "0 \<le> deadzone (options (mock_controller opts))"
      and t: "0 < threshold (options (mock_controller opts))"
  proof -
    have q: "quiet (run (boot (mock_controller opts)) acts)"
      by (rule quiet_run, rule mock_controller_quiet) (rule d t)+
    show ?thesis
      using q applyDeadzone_centre [of "ctl (run (boot (mock_controller opts)) acts)"]
      by (simp add: quiet_def getDirection_def)
  qed
  show ?thesis
    using ch rd run by blast
qed

theorem mock_mode_silent_witness:
  "deadzone (options (mock_controller
      (no_options\<lparr> opt_deadzone := Some 0.2, opt_threshold := Some 0.5 \<rparr>))) = 0.2
   \<and> threshold (options (mock_controller
      (no_options\<lparr> opt_deadzone := Some 0.2, opt_threshold := Some 0.5 \<rparr>))) = 0.5
   \<and> filter stick_event
     (emitted (run (boot (mock_controller
          (no_options\<lparr> opt_deadzone := Some 0.2, opt_threshold := Some 0.5 \<rparr>)))
        [CallStart, ReadsSettle (reads_at 0.9 0.1 0.9 0.1), TimerFires 0,
         LeftButton True 1000, ReadsSettle (reads_at 0 1 0 1), TimerFires 1])) = []
   \<and> readChannel (map_option leftX (channels (mock_controller
          (no_options\<lparr> opt_deadzone := Some 0.2, opt_threshold := Some 0.5 \<rparr>))))
        (Reading 0.9) = Resolved 0.5
   \<and> getDirection (mock_controller
          (no_options\<lparr> opt_deadzone := Some 0.2, opt_threshold := Some 0.5 \<rparr>)) 0 0 = None"
proof -
  define opts where
    "opts = no_options\<lparr> opt_deadzone := Some 0.2, opt_threshold := Some 0.5 \<rparr>"
  have cfg: "deadzone (options (mock_controller opts)) = 0.2"
    "threshold (options (mock_controller opts)) = 0.5"
    by (simp_all add: opts_def mock_controller_def init_def constructor_def no_options_def
        or_default_def)
  have h: "0 \<le> deadzone (options (mock_controller opts))
      \<and> 0 < threshold (options (mock_controller opts))"
    by (simp add: cfg)
  have "filter stick_event
     (emitted (run (boot (mock_controller opts))
        [CallStart, ReadsSettle (reads_at 0.9 0.1 0.9 0.1), TimerFires 0,
         LeftButton True 1000, ReadsSettle (reads_at 0 1 0 1), TimerFires 1])) = []"
    using h mock_mode_silent [of opts ReadError ReadError ReadError ReadError
        "[CallStart, ReadsSettle (reads_at 0.9 0.1 0.9 0.1), TimerFires 0,
         LeftButton True 1000, ReadsSettle (reads_at 0 1 0 1), TimerFires 1]"]
    by blast
  moreover have "readChannel (map_option leftX (channels (mock_controller opts)))
        (Reading 0.9) = Resolved 0.5"
    using mock_mode_silent [of opts "Reading 0.9" ReadError ReadError ReadError "[]"]
    by blast
  moreover have "getDirection (mock_controller opts) 0 0 = None"
    using h mock_mode_silent [of opts ReadError ReadError ReadError ReadError "[]"]
    by (simp add: run_def boot_def)
  ultimately show ?thesis
    using cfg unfolding opts_def by (simp only: simp_thms)
qed

text \<open>The run of the witness is a real one: the click is emitted and a tick is under way.\<close>

lemma mock_run_eval:
  "emitted (run (boot (mock_controller
          (no_options\<lparr> opt_deadzone := Some 0.2, opt_threshold := Some 0.5 \<rparr>)))
        [CallStart, ReadsSettle (reads_at 0.9 0.1 0.9 0.1), TimerFires 0,
         LeftButton True 1000, ReadsSettle (reads_at 0 1 0 1), TimerFires 1]) = [LeftClick True]
   \<and> awaiting (run (boot (mock_controller
          (no_options\<lparr> opt_deadzone := Some 0.2, opt_threshold := Some 0.5 \<rparr>)))
        [CallStart, ReadsSettle (reads_at 0.9 0.1 0.9 0.1), TimerFires 0,
         LeftButton True 1000, ReadsSettle (reads_at 0 1 0 1), TimerFires 1]) = 1"
  by (simp add: run_defs mock_controller_def eval_defs)

section \<open>Stopping while a tick is under way\<close>

text \<open>
  C1. After \<open>stop\<close> has returned, no event is emitted and no tick is scheduled, also when a
  tick was waiting for its reads. The code does otherwise: \<open>poll\<close> tests \<open>isRunning\<close>
  before the \<open>await\<close> only. On the controller of the server script, \<open>start\<close>, then
  \<open>stop\<close> while the reads are pending, then the reads settling with the left stick
  pushed right: \<open>stop\<close> leaves the controller not running with no timer and no event,
  and the suspended tick then emits \<open>pan {direction: "right"}\<close> and sets a timer.
\<close>

theorem stop_leaves_tick_in_flight:
  "\<not> isRunning (ctl (run (boot pi_controller) [CallStart, CallStop]))
   \<and> awaiting (run (boot pi_controller) [CallStart, CallStop]) = 1
   \<and> timers (run (boot pi_controller) [CallStart, CallStop]) = []
   \<and> emitted (run (boot pi_controller) [CallStart, CallStop]) = []
   \<and> emitted (run (boot pi_controller)
        [CallStart, CallStop, ReadsSettle (reads_at 0.9 0.5 0.5 0.5)]) = [Pan Right]
   \<and> timers (run (boot pi_controller)
        [CallStart, CallStop, ReadsSettle (reads_at 0.9 0.5 0.5 0.5)]) = [0]
   \<and> pollTimer (ctl (run (boot pi_controller)
        [CallStart, CallStop, ReadsSettle (reads_at 0.9 0.5 0.5 0.5)])) = Some 0"
  by (simp add: run_defs eval_defs)

section \<open>The broadcast\<close>

lemma forEach_send_map:
  "forEach_send send_throws data wsClients =
     map (\<lambda>client. if send_throws client then SendThrew client data else Sent client data)
       (filter (\<lambda>client. readyState client = 1) wsClients)"
  by (induction wsClients) simp_all

lemma forEach_send_no_Serialize:
  "filter is_Serialize (forEach_send send_throws data wsClients) = []"
  by (induction wsClients) simp_all

text \<open>
  The claim C2 has a subscriber whose send throws removed from the registry. With A and B
  registered and A's send throwing, the broadcast delivers to B and returns the registry
  with A still in it; the next broadcast sends to A again.
\<close>

theorem broadcast_counterexample:
  "broadcastToClients id send_to_A_throws ''pan'' [client_A, client_B]
     = ([client_A, client_B],
        [Serialize ''pan'', SendThrew client_A ''pan'', Sent client_B ''pan''])
   \<and> snd (broadcastToClients id send_to_A_throws ''zoom''
          (fst (broadcastToClients id send_to_A_throws ''pan'' [client_A, client_B])))
     = [Serialize ''zoom'', SendThrew client_A ''zoom'', Sent client_B ''zoom'']"
  by (simp add: broadcastToClients_def Let_def client_A_def client_B_def send_to_A_throws_def)

text \<open>
  C2, amended. A broadcast serializes the message exactly once, before any send, and
  attempts one send of that text to every registered client whose \<open>readyState\<close> is OPEN,
  in registration order; a send that throws is caught and the sends to the clients after
  it still happen. The broadcast leaves the registry as it is: a client whose send threw
  stays registered.
\<close>

theorem broadcast_keeps_registry:
  "fst (broadcastToClients stringify send_throws message wsClients) = wsClients
   \<and> length (filter is_Serialize
        (snd (broadcastToClients stringify send_throws message wsClients))) = 1
   \<and> snd (broadcastToClients stringify send_throws message wsClients) =
       Serialize message
       # map (\<lambda>client. if send_throws client then SendThrew client (stringify message)
                       else Sent client (stringify message))
           (filter (\<lambda>client. readyState client = 1) wsClients)"
  proof -
  have "length (filter is_Serialize
        (snd (broadcastToClients stringify send_throws message wsClients))) = 1"
    by (simp add: broadcastToClients_def Let_def forEach_send_no_Serialize)
  then show ?thesis
    by (simp add: broadcastToClients_def Let_def forEach_send_map)
qed

end
